theory Spec2Isabelle
  imports Main
begin

section \<open>JavaScript values, truthiness and errors\<close>

text \<open>
  The accessors of \<^verbatim>\<open>RelationMetadata\<close> are TypeScript getters. Several of them return the
  value of an \<^verbatim>\<open>&&\<close> / \<^verbatim>\<open>||\<close> chain, which in JavaScript is one of the operands and not
  necessarily a boolean. The values such a chain can produce here are \<^verbatim>\<open>undefined\<close>, a
  boolean, a string or an object; \<open>truthy\<close> is JavaScript's \<^verbatim>\<open>ToBoolean\<close> on them.
\<close>

datatype 'a js_value =
    JSUndefined
  | JSBoolean bool
  | JSString string
  | JSObject 'a

fun truthy :: "'a js_value \<Rightarrow> bool" where
  "truthy JSUndefined = False"
| "truthy (JSBoolean b) = b"
| "truthy (JSString s) = (s \<noteq> [])"
| "truthy (JSObject x) = True"

text \<open>\<^verbatim>\<open>a && b\<close> and \<^verbatim>\<open>a || b\<close> on operands whose evaluation has no effect.\<close>

definition js_and :: "'a js_value \<Rightarrow> 'a js_value \<Rightarrow> 'a js_value" where
  "js_and a b = (if truthy a then b else a)"

definition js_or :: "'a js_value \<Rightarrow> 'a js_value \<Rightarrow> 'a js_value" where
  "js_or a b = (if truthy a then a else b)"

text \<open>
  Truthiness of an optional boolean and of an optional string (\<open>None\<close> is \<^verbatim>\<open>undefined\<close>).
\<close>

definition truthy_boolean :: "bool option \<Rightarrow> bool" where
  "truthy_boolean b = (b = Some True)"

definition truthy_string :: "string option \<Rightarrow> bool" where
  "truthy_string s = (case s of None \<Rightarrow> False | Some n \<Rightarrow> n \<noteq> [])"

text \<open>
  Two ways an accessor can throw: the runtime's \<^verbatim>\<open>TypeError\<close> on reading a property of
  \<^verbatim>\<open>undefined\<close>, and the \<^verbatim>\<open>new Error(message)\<close> thrown by \<^verbatim>\<open>inverseRelation\<close>.
\<close>

datatype error = TypeError | Error string

definition bind_error :: "error + 'a \<Rightarrow> ('a \<Rightarrow> error + 'b) \<Rightarrow> error + 'b" where
  "bind_error m f = (case m of Inl e \<Rightarrow> Inl e | Inr x \<Rightarrow> f x)"

text \<open>
  \<^verbatim>\<open>String.prototype.toLowerCase\<close>, on the strings of this model (8-bit characters):
  the letters A..Z move to a..z, every other character of the ASCII range stays.
  Characters 192..222 other than 215 are the capital letters of Latin-1 and move by 32 too.
\<close>

definition toLowerCase_char :: "char \<Rightarrow> char" where
  "toLowerCase_char c =
     (let n = (of_char c :: nat)
      in if (65 \<le> n \<and> n \<le> 90) \<or> (192 \<le> n \<and> n \<le> 222 \<and> n \<noteq> 215)
         then char_of (n + 32) else c)"

definition toLowerCase :: "string \<Rightarrow> string" where
  "toLowerCase s = map toLowerCase_char s"

section \<open>The data model\<close>

text \<open>A class (constructor function) is identified by a number.\<close>

type_synonym class_ref = nat

text \<open>An \<^verbatim>\<open>EntityMetadata\<close> object is referred to by its address in the metadata store.\<close>

type_synonym entity_ref = nat

text \<open>
  Modelled from the spec: \<^verbatim>\<open>./types/RelationTypes\<close> is not among the sources; the spec gives
  the relation kind as the closed variant OneToOne, OneToMany, ManyToOne, ManyToMany.
\<close>

datatype RelationType = ONE_TO_ONE | ONE_TO_MANY | MANY_TO_ONE | MANY_TO_MANY

text \<open>
  Modelled from the spec: \<^verbatim>\<open>OnDeleteType\<close> of \<^verbatim>\<open>./ForeignKeyMetadata\<close> is not among the
  sources; a referential action. Every action is a non-empty string, hence truthy.
\<close>

datatype OnDeleteType = RESTRICT | CASCADE | SET_NULL

text \<open>
  The reflected property type (\<^verbatim>\<open>propertyType: any\<close>): only its \<^verbatim>\<open>name\<close> is read, which
  may be missing.
\<close>

record PropertyType =
  pt_name :: "string option"

text \<open>
  \<^verbatim>\<open>PropertyTypeInFunction<T> = string | ((t: T) => string|any)\<close>: a literal property name,
  or a resolver applied to the properties map of the related entity.
\<close>

datatype PropertyTypeInFunction =
    Literal string
  | Resolver "(string \<rightharpoonup> string) \<Rightarrow> string"

fun truthy_inverseSide :: "PropertyTypeInFunction option \<Rightarrow> bool" where
  "truthy_inverseSide None = False"
| "truthy_inverseSide (Some (Literal s)) = (s \<noteq> [])"
| "truthy_inverseSide (Some (Resolver f)) = True"

text \<open>
  Modelled from the spec: \<^verbatim>\<open>RelationOptions\<close> is not among the sources; the options bundle
  has the keys cascadeInsert, cascadeUpdate, cascadeRemove, cascadeAll, nullable,
  oldColumnName, onDelete, each of which may be left out.
\<close>

record RelationOptions =
  opt_cascadeInsert :: "bool option"
  opt_cascadeUpdate :: "bool option"
  opt_cascadeRemove :: "bool option"
  opt_cascadeAll :: "bool option"
  opt_nullable :: "bool option"
  opt_oldColumnName :: "string option"
  opt_onDelete :: "OnDeleteType option"

text \<open>
  Modelled from the spec: \<^verbatim>\<open>RelationMetadataArgs\<close> is not among the sources; its fields are
  those the constructor reads and the \<^verbatim>\<open>TreeParent\<close> decorator writes. The decorator's
  object literal leaves out \<^verbatim>\<open>isTreeChildren\<close> and \<^verbatim>\<open>inverseSideProperty\<close>, so these are
  optional.
\<close>

record RelationMetadataArgs =
  args_target :: class_ref
  args_propertyName :: string
  args_propertyType :: "PropertyType option"
  args_relationType :: RelationType
  args_type :: "unit \<Rightarrow> class_ref"
  args_inverseSideProperty :: "PropertyTypeInFunction option"
  args_isTreeParent :: "bool option"
  args_isTreeChildren :: "bool option"
  args_options :: RelationOptions

text \<open>
  Modelled from the spec: \<^verbatim>\<open>ColumnMetadata\<close>, \<^verbatim>\<open>JoinColumnMetadata\<close> and
  \<^verbatim>\<open>JoinTableMetadata\<close> are not among the sources. A join column has a column name
  (possibly absent) and a reference to the column of the related entity it points to
  (possibly absent); a join table is consumed as a presence signal only.
\<close>

record ColumnMetadata =
  col_name :: string
  col_propertyName :: string

record JoinColumnMetadata =
  jc_name :: "string option"
  referencedColumn :: "ColumnMetadata option"

record JoinTableMetadata =
  jt_name :: string

text \<open>
  \<^verbatim>\<open>class RelationMetadata extends PropertyMetadata\<close>. \<open>target\<close> and \<open>propertyName\<close> are
  the fields of the base class, set by \<^verbatim>\<open>super(args.target, args.propertyName)\<close>. A field
  that the constructor may leave unassigned is an option (\<open>None\<close> is \<^verbatim>\<open>undefined\<close>);
  the three fields with an initialiser are plain booleans. References to entity
  metadata are addresses in the store.
\<close>

record RelationMetadata =
  target :: class_ref
  propertyName :: string
  entityMetadata :: "entity_ref option"
  inverseEntityMetadata :: "entity_ref option"
  junctionEntityMetadata :: "entity_ref option"
  joinTable :: "JoinTableMetadata option"
  joinColumn :: "JoinColumnMetadata option"
  isTreeParent :: bool
  isTreeChildren :: bool
  relationType :: RelationType
  isCascadeInsert :: "bool option"
  isCascadeUpdate :: "bool option"
  isCascadeRemove :: "bool option"
  isNullable :: bool
  oldColumnName :: "string option"
  onDelete :: "OnDeleteType option"
  propertyType :: "PropertyType option"
  priv_type :: "(unit \<Rightarrow> class_ref) option"
  priv_inverseSideProperty :: "PropertyTypeInFunction option"

text \<open>
  Modelled from the spec: \<^verbatim>\<open>EntityMetadata\<close> and the naming strategy are not among the
  sources. An entity holds its name, its naming strategy (two pure functions), its
  columns, its primary-key column and the list of all its relations.
\<close>

record NamingStrategy =
  relationName :: "string \<Rightarrow> string"
  relationNameCustomized :: "string \<Rightarrow> string"

record EntityMetadata =
  em_name :: string
  namingStrategy :: NamingStrategy
  columns :: "ColumnMetadata list"
  primaryColumn :: ColumnMetadata
  relations :: "RelationMetadata list"

text \<open>The store: the \<^verbatim>\<open>EntityMetadata\<close> object at each address.\<close>

type_synonym metadata_store = "entity_ref \<Rightarrow> EntityMetadata"

section \<open>The constructor\<close>

text \<open>
  \<open>fresh\<close> is the object after \<^verbatim>\<open>super(args.target, args.propertyName)\<close>, the field
  initialisers (\<^verbatim>\<open>isTreeParent = false\<close>, \<^verbatim>\<open>isTreeChildren = false\<close>,
  \<^verbatim>\<open>isNullable = true\<close>) and \<^verbatim>\<open>this.relationType = args.relationType\<close>; every other
  field is still \<^verbatim>\<open>undefined\<close>.
\<close>

definition fresh :: "RelationMetadataArgs \<Rightarrow> RelationMetadata" where
  "fresh args =
     \<lparr> target = args_target args,
       propertyName = args_propertyName args,
       entityMetadata = None,
       inverseEntityMetadata = None,
       junctionEntityMetadata = None,
       joinTable = None,
       joinColumn = None,
       isTreeParent = False,
       isTreeChildren = False,
       relationType = args_relationType args,
       isCascadeInsert = None,
       isCascadeUpdate = None,
       isCascadeRemove = None,
       isNullable = True,
       oldColumnName = None,
       onDelete = None,
       propertyType = None,
       priv_type = None,
       priv_inverseSideProperty = None \<rparr>"

text \<open>One \<^verbatim>\<open>if (c) this.f = v;\<close> statement of the constructor.\<close>

definition assign_if :: "bool \<Rightarrow> ('s \<Rightarrow> 's) \<Rightarrow> 's \<Rightarrow> 's" where
  "assign_if c upd this = (if c then upd this else this)"

definition constructor :: "RelationMetadataArgs \<Rightarrow> RelationMetadata" where
  "constructor args =
     (let options = args_options args;
          this = fresh args;
          this = assign_if (truthy_inverseSide (args_inverseSideProperty args))
                   (\<lambda>t. t\<lparr>priv_inverseSideProperty := args_inverseSideProperty args\<rparr>) this;
          this = assign_if (args_propertyType args \<noteq> None)
                   (\<lambda>t. t\<lparr>propertyType := args_propertyType args\<rparr>) this;
          this = assign_if (truthy_boolean (opt_cascadeInsert options) \<or> truthy_boolean (opt_cascadeAll options))
                   (\<lambda>t. t\<lparr>isCascadeInsert := Some True\<rparr>) this;
          this = assign_if (truthy_boolean (opt_cascadeUpdate options) \<or> truthy_boolean (opt_cascadeAll options))
                   (\<lambda>t. t\<lparr>isCascadeUpdate := Some True\<rparr>) this;
          this = assign_if (truthy_boolean (opt_cascadeRemove options) \<or> truthy_boolean (opt_cascadeAll options))
                   (\<lambda>t. t\<lparr>isCascadeRemove := Some True\<rparr>) this;
          this = assign_if (truthy_string (opt_oldColumnName options))
                   (\<lambda>t. t\<lparr>oldColumnName := opt_oldColumnName options\<rparr>) this;
          this = (case opt_nullable options of
                    None \<Rightarrow> this
                  | Some nullable \<Rightarrow> assign_if nullable (\<lambda>t. t\<lparr>isNullable := nullable\<rparr>) this);
          this = assign_if (opt_onDelete options \<noteq> None)
                   (\<lambda>t. t\<lparr>onDelete := opt_onDelete options\<rparr>) this;
          this = assign_if (truthy_boolean (args_isTreeParent args))
                   (\<lambda>t. t\<lparr>isTreeParent := True\<rparr>) this;
          this = assign_if (truthy_boolean (args_isTreeChildren args))
                   (\<lambda>t. t\<lparr>isTreeChildren := True\<rparr>) this;
          this = assign_if (priv_type this = None)
                   (\<lambda>t. t\<lparr>priv_type := Some (args_type args)\<rparr>) this
      in this)"

section \<open>The collaborator: entity metadata\<close>

text \<open>
  Modelled from the spec: the lookup operations of \<^verbatim>\<open>EntityMetadata\<close> are not among the
  sources. \<open>findRelationWithPropertyName\<close> gives a relation of the entity with the
  given property name, or nothing; \<open>hasRelationWithPropertyName\<close> tells whether there
  is one; \<open>createPropertiesMap\<close> maps every declared property (columns and relations)
  to its own name; \<open>treeParentRelation\<close> and \<open>treeChildrenRelation\<close> are the relation
  of the entity marked as tree parent and as tree children (at most one each).
\<close>

definition findRelationWithPropertyName :: "EntityMetadata \<Rightarrow> string \<Rightarrow> RelationMetadata option" where
  "findRelationWithPropertyName em n = find (\<lambda>relation. propertyName relation = n) (relations em)"

definition hasRelationWithPropertyName :: "EntityMetadata \<Rightarrow> string \<Rightarrow> bool" where
  "hasRelationWithPropertyName em n = (findRelationWithPropertyName em n \<noteq> None)"

definition createPropertiesMap :: "EntityMetadata \<Rightarrow> (string \<rightharpoonup> string)" where
  "createPropertiesMap em =
     map_of (map (\<lambda>column. (col_propertyName column, col_propertyName column)) (columns em)
           @ map (\<lambda>relation. (propertyName relation, propertyName relation)) (relations em))"

definition treeParentRelation :: "EntityMetadata \<Rightarrow> RelationMetadata option" where
  "treeParentRelation em = find isTreeParent (relations em)"

definition treeChildrenRelation :: "EntityMetadata \<Rightarrow> RelationMetadata option" where
  "treeChildrenRelation em = find isTreeChildren (relations em)"

text \<open>
  Reading a field of the object behind a reference: on \<^verbatim>\<open>undefined\<close> the runtime throws
  a \<^verbatim>\<open>TypeError\<close>.
\<close>

definition deref :: "metadata_store \<Rightarrow> entity_ref option \<Rightarrow> error + EntityMetadata" where
  "deref st r = (case r of None \<Rightarrow> Inl TypeError | Some a \<Rightarrow> Inr (st a))"

definition property_of :: "RelationMetadata option \<Rightarrow> error + string" where
  "property_of r = (case r of None \<Rightarrow> Inl TypeError | Some relation \<Rightarrow> Inr (propertyName relation))"

section \<open>The accessors\<close>

text \<open>\<^verbatim>\<open>get name()\<close>: the name of the column in the database.\<close>

definition name :: "metadata_store \<Rightarrow> RelationMetadata \<Rightarrow> error + string" where
  "name st this =
     (let default = bind_error (deref st (entityMetadata this))
                      (\<lambda>em. Inr (relationName (namingStrategy em) (propertyName this)))
      in case joinColumn this of
           None \<Rightarrow> default
         | Some jc \<Rightarrow>
             (case jc_name jc of
                None \<Rightarrow> default
              | Some n \<Rightarrow>
                  if n \<noteq> []
                  then bind_error (deref st (entityMetadata this))
                         (\<lambda>em. Inr (relationNameCustomized (namingStrategy em) n))
                  else default))"

text \<open>\<^verbatim>\<open>get referencedColumnName()\<close>.\<close>

definition referencedColumnName :: "metadata_store \<Rightarrow> RelationMetadata \<Rightarrow> error + string" where
  "referencedColumnName st this =
     (let fallback = bind_error (deref st (inverseEntityMetadata this))
                       (\<lambda>em. Inr (col_propertyName (primaryColumn em)))
      in case joinColumn this of
           None \<Rightarrow> fallback
         | Some jc \<Rightarrow>
             (case referencedColumn jc of
                None \<Rightarrow> fallback
              | Some column \<Rightarrow>
                  if col_name column \<noteq> [] then Inr (col_name column) else fallback))"

text \<open>\<^verbatim>\<open>get type()\<close>: calls the stored function.\<close>

definition type_of_relation :: "RelationMetadata \<Rightarrow> error + class_ref" where
  "type_of_relation this = (case priv_type this of None \<Rightarrow> Inl TypeError | Some f \<Rightarrow> Inr (f ()))"

text \<open>
  \<^verbatim>\<open>get isLazy()\<close>:
  \<^verbatim>\<open>this.propertyType && this.propertyType.name && this.propertyType.name.toLowerCase() === "promise"\<close>.
  The chain gives back its first falsy operand: \<^verbatim>\<open>undefined\<close> for a missing type or a
  missing name, the empty string for an empty name.
\<close>

definition isLazy :: "RelationMetadata \<Rightarrow> PropertyType js_value" where
  "isLazy this =
     (case propertyType this of
        None \<Rightarrow> JSUndefined
      | Some pt \<Rightarrow>
          (case pt_name pt of
             None \<Rightarrow> JSUndefined
           | Some n \<Rightarrow>
               if n \<noteq> [] then JSBoolean (toLowerCase n = ''promise'') else JSString n))"

definition isOneToOne :: "RelationMetadata \<Rightarrow> bool" where
  "isOneToOne this = (relationType this = ONE_TO_ONE)"

definition isOneToMany :: "RelationMetadata \<Rightarrow> bool" where
  "isOneToMany this = (relationType this = ONE_TO_MANY)"

definition isManyToOne :: "RelationMetadata \<Rightarrow> bool" where
  "isManyToOne this = (relationType this = MANY_TO_ONE)"

definition isManyToMany :: "RelationMetadata \<Rightarrow> bool" where
  "isManyToMany this = (relationType this = MANY_TO_MANY)"

text \<open>
  \<^verbatim>\<open>get isOwning()\<close>:
  \<^verbatim>\<open>this.isManyToOne || (this.isManyToMany && this.joinTable) || (this.isOneToOne && this.joinColumn)\<close>.
  The result is a boolean, \<^verbatim>\<open>undefined\<close>, or the join table or join column object itself.
\<close>

definition object_or_undefined :: "'a option \<Rightarrow> 'a js_value" where
  "object_or_undefined x = (case x of None \<Rightarrow> JSUndefined | Some obj \<Rightarrow> JSObject obj)"

definition isOwning :: "RelationMetadata \<Rightarrow> (JoinTableMetadata + JoinColumnMetadata) js_value" where
  "isOwning this =
     js_or (js_or (JSBoolean (isManyToOne this))
                  (js_and (JSBoolean (isManyToMany this))
                          (object_or_undefined (map_option Inl (joinTable this)))))
           (js_and (JSBoolean (isOneToOne this))
                   (object_or_undefined (map_option Inr (joinColumn this))))"

text \<open>
  \<^verbatim>\<open>private computeInverseSide(inverseSide)\<close>: the properties map is built first. The
  source's last \<^verbatim>\<open>return ""\<close> is for a value that is neither a function nor a string,
  which the type of the specifier excludes.
\<close>

definition computeInverseSide ::
  "metadata_store \<Rightarrow> RelationMetadata \<Rightarrow> PropertyTypeInFunction \<Rightarrow> error + string" where
  "computeInverseSide st this inverseSide =
     bind_error (deref st (inverseEntityMetadata this))
       (\<lambda>em. let ownerEntityPropertiesMap = createPropertiesMap em
             in case inverseSide of
                  Resolver f \<Rightarrow> Inr (f ownerEntityPropertiesMap)
                | Literal s \<Rightarrow> Inr s)"

text \<open>\<^verbatim>\<open>get inverseSideProperty()\<close>.\<close>

definition inverseSideProperty :: "metadata_store \<Rightarrow> RelationMetadata \<Rightarrow> error + string" where
  "inverseSideProperty st this =
     (let otherwise =
            (if isTreeParent this then
               bind_error (deref st (entityMetadata this)) (\<lambda>em. property_of (treeChildrenRelation em))
             else if isTreeChildren this then
               bind_error (deref st (entityMetadata this)) (\<lambda>em. property_of (treeParentRelation em))
             else Inr [])
      in case priv_inverseSideProperty this of
           None \<Rightarrow> otherwise
         | Some inverseSide \<Rightarrow>
             if truthy_inverseSide (Some inverseSide)
             then computeInverseSide st this inverseSide
             else otherwise)"

text \<open>
  \<^verbatim>\<open>get hasInverseSide()\<close>:
  \<^verbatim>\<open>this.inverseEntityMetadata && this.inverseEntityMetadata.hasRelationWithPropertyName(this.inverseSideProperty)\<close>.
\<close>

definition hasInverseSide :: "metadata_store \<Rightarrow> RelationMetadata \<Rightarrow> error + unit js_value" where
  "hasInverseSide st this =
     (case inverseEntityMetadata this of
        None \<Rightarrow> Inr JSUndefined
      | Some a \<Rightarrow>
          bind_error (inverseSideProperty st this)
            (\<lambda>p. Inr (JSBoolean (hasRelationWithPropertyName (st a) p))))"

text \<open>
  \<^verbatim>\<open>get inverseRelation()\<close>. The message of the thrown error is
  \<^verbatim>\<open>`Inverse side was not found in the relation ${this.entityMetadata.name}#${this.inverseSideProperty}`\<close>.
\<close>

definition inverseRelation :: "metadata_store \<Rightarrow> RelationMetadata \<Rightarrow> error + RelationMetadata" where
  "inverseRelation st this =
     bind_error (deref st (inverseEntityMetadata this))
       (\<lambda>inverse. bind_error (inverseSideProperty st this)
          (\<lambda>p. case findRelationWithPropertyName inverse p of
                 Some relation \<Rightarrow> Inr relation
               | None \<Rightarrow>
                   bind_error (deref st (entityMetadata this))
                     (\<lambda>em. bind_error (inverseSideProperty st this)
                        (\<lambda>q. Inl (Error (''Inverse side was not found in the relation ''
                                          @ em_name em @ ''#'' @ q))))))"

section \<open>The tree-parent decorator\<close>

text \<open>
  \<^verbatim>\<open>TreeParent(options?)\<close> applied to property \<^verbatim>\<open>propertyName\<close> of an object whose
  constructor is the class \<open>object_constructor\<close>. \<open>reflectedType\<close> is what
  \<^verbatim>\<open>Reflect.getMetadata("design:type", object, propertyName)\<close> gives; the storage of
  relation arguments is passed and returned with the new record added.
\<close>

definition empty_options :: RelationOptions where
  "empty_options =
     \<lparr> opt_cascadeInsert = None, opt_cascadeUpdate = None, opt_cascadeRemove = None,
       opt_cascadeAll = None, opt_nullable = None, opt_oldColumnName = None,
       opt_onDelete = None \<rparr>"

definition TreeParent_args ::
  "RelationOptions option \<Rightarrow> class_ref \<Rightarrow> string \<Rightarrow> PropertyType option \<Rightarrow> RelationMetadataArgs" where
  "TreeParent_args options object_constructor property reflectedType =
     (let options = (case options of None \<Rightarrow> empty_options | Some given \<Rightarrow> given)
      in \<lparr> args_target = object_constructor,
           args_propertyName = property,
           args_propertyType = reflectedType,
           args_relationType = MANY_TO_ONE,
           args_type = (\<lambda>_. object_constructor),
           args_inverseSideProperty = None,
           args_isTreeParent = Some True,
           args_isTreeChildren = None,
           args_options = options \<rparr>)"

definition TreeParent ::
  "RelationOptions option \<Rightarrow> class_ref \<Rightarrow> string \<Rightarrow> PropertyType option
   \<Rightarrow> RelationMetadataArgs list \<Rightarrow> RelationMetadataArgs list" where
  "TreeParent options object_constructor property reflectedType storage =
     storage @ [TreeParent_args options object_constructor property reflectedType]"

section \<open>Wiring\<close>

text \<open>
  Modelled from the spec: the builder that wires a constructed relation is not among the
  sources. After construction the references to the owning and the related entity
  metadata, the junction entity metadata and the join descriptors are attached by
  assignment to the public fields.
\<close>

definition wire ::
  "RelationMetadata \<Rightarrow> entity_ref \<Rightarrow> entity_ref \<Rightarrow> entity_ref option
   \<Rightarrow> JoinTableMetadata option \<Rightarrow> JoinColumnMetadata option \<Rightarrow> RelationMetadata" where
  "wire this owner related junction jt jc =
     this\<lparr> entityMetadata := Some owner,
           inverseEntityMetadata := Some related,
           junctionEntityMetadata := junction,
           joinTable := jt,
           joinColumn := jc \<rparr>"

text \<open>A relation is wired when both entity references are attached.\<close>

definition wired :: "RelationMetadata \<Rightarrow> bool" where
  "wired this = (entityMetadata this \<noteq> None \<and> inverseEntityMetadata this \<noteq> None)"

section \<open>Case-insensitive comparison, as the specification words it\<close>

text \<open>
  Two strings are equal up to letter case when they have the same length and agree,
  position by position, once both characters are put in lower case.
\<close>

definition equal_ignoring_case :: "string \<Rightarrow> string \<Rightarrow> bool" where
  "equal_ignoring_case a b = list_all2 (\<lambda>c d. toLowerCase_char c = toLowerCase_char d) a b"

section \<open>A sample metadata model\<close>

text \<open>
  Five entities: Category (address 0) is a tree with a parent and a children relation;
  Order (1) and Customer (2) refer to each other; Folder (3) declares a tree parent but
  no tree children; Post (4) has a many-to-many relation and a relation without an
  inverse side.
\<close>

definition example_strategy :: NamingStrategy where
  "example_strategy =
     \<lparr> relationName = (\<lambda>propertyName. ''rel_'' @ propertyName),
       relationNameCustomized = (\<lambda>customName. ''custom_'' @ customName) \<rparr>"

definition id_column :: ColumnMetadata where
  "id_column = \<lparr> col_name = ''id'', col_propertyName = ''id'' \<rparr>"

definition uid_column :: ColumnMetadata where
  "uid_column = \<lparr> col_name = ''uid'', col_propertyName = ''uid'' \<rparr>"

definition plain_args :: "class_ref \<Rightarrow> string \<Rightarrow> RelationType \<Rightarrow> class_ref \<Rightarrow> RelationMetadataArgs" where
  "plain_args cls property kind related_cls =
     \<lparr> args_target = cls,
       args_propertyName = property,
       args_propertyType = None,
       args_relationType = kind,
       args_type = (\<lambda>_. related_cls),
       args_inverseSideProperty = None,
       args_isTreeParent = None,
       args_isTreeChildren = None,
       args_options = empty_options \<rparr>"

definition category_parent :: RelationMetadata where
  "category_parent =
     wire (constructor (TreeParent_args None 0 ''parent'' None)) 0 0 None None None"

definition category_children :: RelationMetadata where
  "category_children =
     wire (constructor ((plain_args 0 ''children'' ONE_TO_MANY 0)\<lparr>args_isTreeChildren := Some True\<rparr>))
       0 0 None None None"

definition category_parent_literal :: RelationMetadata where
  "category_parent_literal =
     wire (constructor ((TreeParent_args None 0 ''parent'' None)
                          \<lparr>args_inverseSideProperty := Some (Literal ''orders'')\<rparr>))
       0 0 None None None"

definition category_parent_empty_literal :: RelationMetadata where
  "category_parent_empty_literal =
     wire (constructor ((TreeParent_args None 0 ''parent'' None)
                          \<lparr>args_inverseSideProperty := Some (Literal [])\<rparr>))
       0 0 None None None"

definition order_customer :: RelationMetadata where
  "order_customer =
     wire (constructor ((plain_args 1 ''customer'' MANY_TO_ONE 2)
                          \<lparr>args_propertyType := Some \<lparr>pt_name = Some ''Promise''\<rparr>,
                           args_inverseSideProperty := Some (Literal ''orders'')\<rparr>))
       1 2 None None (Some \<lparr>jc_name = Some ''customer_fk'', referencedColumn = Some uid_column\<rparr>)"

definition customer_orders :: RelationMetadata where
  "customer_orders =
     wire (constructor ((plain_args 2 ''orders'' ONE_TO_MANY 1)
                          \<lparr>args_propertyType := Some \<lparr>pt_name = Some ''Array''\<rparr>,
                           args_inverseSideProperty :=
                             Some (Resolver (\<lambda>order. case order ''customer'' of None \<Rightarrow> [] | Some n \<Rightarrow> n))\<rparr>))
       2 1 None None None"

definition folder_parent :: RelationMetadata where
  "folder_parent =
     wire (constructor (TreeParent_args None 3 ''parent'' None)) 3 3 None None None"

definition post_tags :: RelationMetadata where
  "post_tags =
     wire (constructor (plain_args 4 ''tags'' MANY_TO_MANY 0))
       4 0 None (Some \<lparr>jt_name = ''post_tags''\<rparr>) None"

definition post_author :: RelationMetadata where
  "post_author =
     wire (constructor (plain_args 4 ''author'' ONE_TO_ONE 2))
       4 2 None None (Some \<lparr>jc_name = None, referencedColumn = None\<rparr>)"

definition post_editor :: RelationMetadata where
  "post_editor =
     wire (constructor (plain_args 4 ''editor'' ONE_TO_ONE 2)) 4 2 None None None"

definition post_categories :: RelationMetadata where
  "post_categories =
     wire (constructor (plain_args 4 ''categories'' MANY_TO_MANY 0)) 4 0 None None None"

definition entity :: "string \<Rightarrow> RelationMetadata list \<Rightarrow> EntityMetadata" where
  "entity n rels =
     \<lparr> em_name = n, namingStrategy = example_strategy, columns = [id_column],
       primaryColumn = id_column, relations = rels \<rparr>"

definition example_store :: metadata_store where
  "example_store a =
     (if a = 0 then entity ''Category'' [category_parent, category_children]
      else if a = 1 then entity ''Order'' [order_customer]
      else if a = 2 then entity ''Customer'' [customer_orders]
      else if a = 3 then entity ''Folder'' [folder_parent]
      else entity ''Post'' [post_tags, post_author, post_editor, post_categories])"

section \<open>Unfolding rules\<close>

lemmas example_defs =
  example_store_def entity_def category_parent_def category_children_def category_parent_literal_def
  category_parent_empty_literal_def order_customer_def customer_orders_def folder_parent_def
  post_tags_def post_author_def post_editor_def post_categories_def plain_args_def
  TreeParent_args_def empty_options_def example_strategy_def id_column_def uid_column_def
  wire_def constructor_def fresh_def assign_if_def truthy_boolean_def truthy_string_def Let_def

lemmas accessor_defs =
  name_def referencedColumnName_def isLazy_def isOwning_def inverseSideProperty_def hasInverseSide_def
  inverseRelation_def computeInverseSide_def deref_def property_of_def bind_error_def
  findRelationWithPropertyName_def hasRelationWithPropertyName_def createPropertiesMap_def
  treeParentRelation_def treeChildrenRelation_def js_or_def js_and_def object_or_undefined_def
  isManyToOne_def isManyToMany_def isOneToOne_def isOneToMany_def

subsection \<open>Constructor, field by field\<close>

lemma app_assign_if: "f (assign_if c upd this) = (if c then f (upd this) else f this)"
  by (simp add: assign_if_def)

lemma app_case_option:
  "f (case x of None \<Rightarrow> a | Some v \<Rightarrow> b v) = (case x of None \<Rightarrow> f a | Some v \<Rightarrow> f (b v))"
  by (cases x) simp_all

lemma case_option_const: "(case x of None \<Rightarrow> a | Some v \<Rightarrow> a) = a"
  by (cases x) simp_all

lemmas constructor_unfold = constructor_def Let_def fresh_def truthy_boolean_def case_option_const

lemma isCascadeInsert_constructor:
  "isCascadeInsert (constructor args) =
     (if opt_cascadeInsert (args_options args) = Some True \<or> opt_cascadeAll (args_options args) = Some True
      then Some True else None)"
  by (simp add: constructor_unfold app_assign_if[of isCascadeInsert] app_case_option[of isCascadeInsert]
        split del: if_split cong: if_cong option.case_cong)

lemma isCascadeUpdate_constructor:
  "isCascadeUpdate (constructor args) =
     (if opt_cascadeUpdate (args_options args) = Some True \<or> opt_cascadeAll (args_options args) = Some True
      then Some True else None)"
  by (simp add: constructor_unfold app_assign_if[of isCascadeUpdate] app_case_option[of isCascadeUpdate]
        split del: if_split cong: if_cong option.case_cong)

lemma isCascadeRemove_constructor:
  "isCascadeRemove (constructor args) =
     (if opt_cascadeRemove (args_options args) = Some True \<or> opt_cascadeAll (args_options args) = Some True
      then Some True else None)"
  by (simp add: constructor_unfold app_assign_if[of isCascadeRemove] app_case_option[of isCascadeRemove]
        split del: if_split cong: if_cong option.case_cong)

lemma isNullable_constructor: "isNullable (constructor args) = True"
  by (simp add: constructor_unfold app_assign_if[of isNullable] app_case_option[of isNullable]
        split del: if_split cong: if_cong option.case_cong)

lemma priv_inverseSideProperty_constructor:
  "priv_inverseSideProperty (constructor args) =
     (if truthy_inverseSide (args_inverseSideProperty args) then args_inverseSideProperty args else None)"
  by (simp add: constructor_unfold app_assign_if[of priv_inverseSideProperty]
        app_case_option[of priv_inverseSideProperty]
        split del: if_split cong: if_cong option.case_cong)

lemma isTreeParent_constructor:
  "isTreeParent (constructor args) = (if args_isTreeParent args = Some True then True else False)"
  by (simp add: constructor_unfold app_assign_if[of isTreeParent] app_case_option[of isTreeParent]
        split del: if_split cong: if_cong option.case_cong)

lemma isTreeChildren_constructor:
  "isTreeChildren (constructor args) = (if args_isTreeChildren args = Some True then True else False)"
  by (simp add: constructor_unfold app_assign_if[of isTreeChildren] app_case_option[of isTreeChildren]
        split del: if_split cong: if_cong option.case_cong)

lemma truthy_stored_specifier:
  "priv_inverseSideProperty (constructor args) = Some x \<Longrightarrow> truthy_inverseSide (Some x)"
  by (simp add: priv_inverseSideProperty_constructor split: if_splits)

lemma constructor_literal_empty:
  "constructor (args\<lparr>args_inverseSideProperty := Some (Literal [])\<rparr>)
   = constructor (args\<lparr>args_inverseSideProperty := None\<rparr>)"
  by (simp add: constructor_def fresh_def Let_def assign_if_def)

section \<open>Ownership\<close>

text \<open>
  C1. \<open>isOwning\<close> follows the relation kind: a many-to-one relation gives \<^verbatim>\<open>true\<close>, a
  one-to-many relation gives \<^verbatim>\<open>false\<close>, a many-to-many relation gives a truthy value
  exactly when a join table is attached to this side, and a one-to-one relation gives a
  truthy value exactly when a join column is attached to this side. (In the last two
  cases the getter returns the attached object itself, or \<^verbatim>\<open>false\<close> or \<^verbatim>\<open>undefined\<close>.)
\<close>

theorem isOwning_by_relation_kind:
  "(relationType this = MANY_TO_ONE \<longrightarrow> isOwning this = JSBoolean True) \<and>
   (relationType this = ONE_TO_MANY \<longrightarrow> isOwning this = JSBoolean False) \<and>
   (relationType this = MANY_TO_MANY \<longrightarrow> (truthy (isOwning this) \<longleftrightarrow> joinTable this \<noteq> None)) \<and>
   (relationType this = ONE_TO_ONE \<longrightarrow> (truthy (isOwning this) \<longleftrightarrow> joinColumn this \<noteq> None))"
  by (auto simp: isOwning_def js_or_def js_and_def isManyToOne_def isManyToMany_def isOneToOne_def
        object_or_undefined_def split: option.splits)

theorem isOwning_by_relation_kind_witness:
  "relationType order_customer = MANY_TO_ONE \<and> isOwning order_customer = JSBoolean True \<and>
   relationType customer_orders = ONE_TO_MANY \<and> isOwning customer_orders = JSBoolean False \<and>
   relationType post_tags = MANY_TO_MANY \<and> joinTable post_tags \<noteq> None \<and> truthy (isOwning post_tags) \<and>
   relationType post_categories = MANY_TO_MANY \<and> joinTable post_categories = None \<and>
     \<not> truthy (isOwning post_categories) \<and>
   relationType post_author = ONE_TO_ONE \<and> joinColumn post_author \<noteq> None \<and> truthy (isOwning post_author) \<and>
   relationType post_editor = ONE_TO_ONE \<and> joinColumn post_editor = None \<and> \<not> truthy (isOwning post_editor)"
  using isOwning_by_relation_kind [of order_customer] isOwning_by_relation_kind [of customer_orders]
    isOwning_by_relation_kind [of post_tags] isOwning_by_relation_kind [of post_categories]
    isOwning_by_relation_kind [of post_author] isOwning_by_relation_kind [of post_editor]
  by (simp add: example_defs)

section \<open>Cascade flags\<close>

text \<open>
  C4. When the declaration sets the blanket option \<^verbatim>\<open>cascadeAll\<close> to true, the
  constructed metadata has all three cascade flags true, whatever the individual options
  say; and each flag is true whenever its own option was set to true.
\<close>

theorem cascadeAll_expands:
  "(opt_cascadeAll (args_options args) = Some True \<longrightarrow>
      isCascadeInsert (constructor args) = Some True \<and>
      isCascadeUpdate (constructor args) = Some True \<and>
      isCascadeRemove (constructor args) = Some True) \<and>
   (opt_cascadeInsert (args_options args) = Some True \<longrightarrow> isCascadeInsert (constructor args) = Some True) \<and>
   (opt_cascadeUpdate (args_options args) = Some True \<longrightarrow> isCascadeUpdate (constructor args) = Some True) \<and>
   (opt_cascadeRemove (args_options args) = Some True \<longrightarrow> isCascadeRemove (constructor args) = Some True)"
  by (simp add: isCascadeInsert_constructor isCascadeUpdate_constructor isCascadeRemove_constructor)


theorem cascadeAll_expands_witness:
  "opt_cascadeAll (args_options
      ((plain_args 1 ''customer'' MANY_TO_ONE 2)
         \<lparr>args_options := empty_options\<lparr>opt_cascadeAll := Some True, opt_cascadeInsert := Some False\<rparr>\<rparr>))
     = Some True \<and>
   isCascadeInsert (constructor
      ((plain_args 1 ''customer'' MANY_TO_ONE 2)
         \<lparr>args_options := empty_options\<lparr>opt_cascadeAll := Some True, opt_cascadeInsert := Some False\<rparr>\<rparr>))
     = Some True \<and>
   isCascadeUpdate (constructor
      ((plain_args 1 ''customer'' MANY_TO_ONE 2)
         \<lparr>args_options := empty_options\<lparr>opt_cascadeAll := Some True, opt_cascadeInsert := Some False\<rparr>\<rparr>))
     = Some True \<and>
   isCascadeRemove (constructor
      ((plain_args 1 ''customer'' MANY_TO_ONE 2)
         \<lparr>args_options := empty_options\<lparr>opt_cascadeAll := Some True, opt_cascadeInsert := Some False\<rparr>\<rparr>))
     = Some True \<and>
   opt_cascadeUpdate (args_options
      ((plain_args 1 ''customer'' MANY_TO_ONE 2)
         \<lparr>args_options := empty_options\<lparr>opt_cascadeUpdate := Some True\<rparr>\<rparr>))
     = Some True \<and>
   isCascadeUpdate (constructor
      ((plain_args 1 ''customer'' MANY_TO_ONE 2)
         \<lparr>args_options := empty_options\<lparr>opt_cascadeUpdate := Some True\<rparr>\<rparr>))
     = Some True"
  using cascadeAll_expands
      [of "(plain_args 1 ''customer'' MANY_TO_ONE 2)
             \<lparr>args_options := empty_options\<lparr>opt_cascadeAll := Some True, opt_cascadeInsert := Some False\<rparr>\<rparr>"]
    cascadeAll_expands
      [of "(plain_args 1 ''customer'' MANY_TO_ONE 2)
             \<lparr>args_options := empty_options\<lparr>opt_cascadeUpdate := Some True\<rparr>\<rparr>"]
  by (simp add: plain_args_def empty_options_def)

section \<open>Column names\<close>

text \<open>
  C8. The owning-side column name of a wired relation: when a join column is attached
  and carries an explicit (non-empty) name, the result is the naming strategy's customized
  transform of that name; in every other case it is the naming strategy's default
  transform of the relation's property name. The naming strategy is the one of the owning
  entity.
\<close>

theorem name_by_join_column:
  assumes "entityMetadata this = Some owner"
  shows "(joinColumn this = Some jc \<and> jc_name jc = Some n \<and> n \<noteq> [] \<longrightarrow>
            name st this = Inr (relationNameCustomized (namingStrategy (st owner)) n)) \<and>
         (\<not> (\<exists>jc n. joinColumn this = Some jc \<and> jc_name jc = Some n \<and> n \<noteq> []) \<longrightarrow>
            name st this = Inr (relationName (namingStrategy (st owner)) (propertyName this)))"
  using assms
  by (auto simp: name_def deref_def bind_error_def Let_def split: option.splits)

theorem name_by_join_column_witness:
  "entityMetadata order_customer = Some 1 \<and>
   joinColumn order_customer = Some \<lparr>jc_name = Some ''customer_fk'', referencedColumn = Some uid_column\<rparr> \<and>
   name example_store order_customer = Inr ''custom_customer_fk'' \<and>
   entityMetadata post_author = Some 4 \<and>
   \<not> (\<exists>jc n. joinColumn post_author = Some jc \<and> jc_name jc = Some n \<and> n \<noteq> []) \<and>
   name example_store post_author = Inr ''rel_author''"
  using name_by_join_column [where this = order_customer and owner = 1 and st = example_store
          and jc = "\<lparr>jc_name = Some ''customer_fk'', referencedColumn = Some uid_column\<rparr>"
          and n = "''customer_fk''"]
        name_by_join_column [where this = post_author and owner = 4 and st = example_store]
  by (simp add: example_defs)

text \<open>
  C7. The referenced column name: when a join column is attached and refers to a column
  with a (non-empty) name, the result is that name; in every other case it is the property
  name of the primary-key column of the related entity.
\<close>

theorem referencedColumnName_by_join_column:
  "(joinColumn this = Some jc \<and> referencedColumn jc = Some column \<and> col_name column \<noteq> [] \<longrightarrow>
      referencedColumnName st this = Inr (col_name column)) \<and>
   (\<not> (\<exists>jc column. joinColumn this = Some jc \<and> referencedColumn jc = Some column \<and> col_name column \<noteq> [])
      \<and> inverseEntityMetadata this = Some related \<longrightarrow>
      referencedColumnName st this = Inr (col_propertyName (primaryColumn (st related))))"
  by (auto simp: referencedColumnName_def deref_def bind_error_def Let_def split: option.splits)

theorem referencedColumnName_by_join_column_witness:
  "joinColumn order_customer = Some \<lparr>jc_name = Some ''customer_fk'', referencedColumn = Some uid_column\<rparr> \<and>
   col_name uid_column \<noteq> [] \<and>
   referencedColumnName example_store order_customer = Inr ''uid'' \<and>
   joinColumn post_editor = None \<and> inverseEntityMetadata post_editor = Some 2 \<and>
   referencedColumnName example_store post_editor = Inr ''id'' \<and>
   joinColumn post_author = Some \<lparr>jc_name = None, referencedColumn = None\<rparr> \<and>
   referencedColumnName example_store post_author = Inr ''id''"
  using referencedColumnName_by_join_column [where this = order_customer and st = example_store
          and jc = "\<lparr>jc_name = Some ''customer_fk'', referencedColumn = Some uid_column\<rparr>"
          and column = uid_column]
        referencedColumnName_by_join_column [where this = post_editor and st = example_store and related = 2]
        referencedColumnName_by_join_column [where this = post_author and st = example_store and related = 2]
  by (simp add: example_defs)

section \<open>Lazy relations\<close>

lemma equal_ignoring_case_map:
  "equal_ignoring_case a b \<longleftrightarrow> toLowerCase a = toLowerCase b"
  unfolding equal_ignoring_case_def toLowerCase_def
  by (induction a arbitrary: b) (auto simp: list_all2_Cons1)

lemma toLowerCase_promise: "toLowerCase ''promise'' = ''promise''"
  by code_simp

lemma equal_ignoring_case_Promise: "equal_ignoring_case ''Promise'' ''promise''"
  by code_simp

lemma equal_ignoring_case_Array: "\<not> equal_ignoring_case ''Array'' ''promise''"
  by code_simp

text \<open>
  C9. For a relation whose property type has a name, \<open>isLazy\<close> is truthy exactly when
  the name equals \<^verbatim>\<open>promise\<close> up to letter case; and when the name is not empty the
  value is the boolean itself, so \<^verbatim>\<open>true\<close> for such a name and \<^verbatim>\<open>false\<close> for any other.
\<close>

theorem isLazy_iff_promise:
  assumes "propertyType this = Some pt" and "pt_name pt = Some n"
  shows "(truthy (isLazy this) \<longleftrightarrow> equal_ignoring_case n ''promise'') \<and>
         (n \<noteq> [] \<longrightarrow> isLazy this = JSBoolean (equal_ignoring_case n ''promise''))"
  using assms
  by (auto simp: isLazy_def equal_ignoring_case_map toLowerCase_promise)
     (simp add: toLowerCase_def)

theorem isLazy_iff_promise_witness:
  "propertyType order_customer = Some \<lparr>pt_name = Some ''Promise''\<rparr> \<and>
   equal_ignoring_case ''Promise'' ''promise'' \<and> isLazy order_customer = JSBoolean True \<and>
   propertyType customer_orders = Some \<lparr>pt_name = Some ''Array''\<rparr> \<and>
   \<not> equal_ignoring_case ''Array'' ''promise'' \<and> isLazy customer_orders = JSBoolean False"
  using isLazy_iff_promise [of order_customer "\<lparr>pt_name = Some ''Promise''\<rparr>" "''Promise''"]
        isLazy_iff_promise [of customer_orders "\<lparr>pt_name = Some ''Array''\<rparr>" "''Array''"]
  by (simp add: example_defs equal_ignoring_case_Promise equal_ignoring_case_Array)

section \<open>The inverse side\<close>

text \<open>
  The declaration that \<^verbatim>\<open>TreeParent\<close> stores is a many-to-one tree-parent relation from
  the class to itself, without an inverse-side specifier.
\<close>

lemma TreeParent_declares_self_relation:
  "TreeParent options cls property reflectedType storage = storage @ [args] \<Longrightarrow>
     args_type args () = args_target args \<and> args_target args = cls \<and>
     args_relationType args = MANY_TO_ONE \<and> args_isTreeParent args = Some True \<and>
     args_inverseSideProperty args = None"
  by (auto simp: TreeParent_def TreeParent_args_def)

lemma wired_wire: "wired (wire this owner related junction jt jc)"
  by (simp add: wired_def wire_def)

lemma wire_fields:
  "priv_inverseSideProperty (wire this owner related junction jt jc) = priv_inverseSideProperty this"
  "isTreeParent (wire this owner related junction jt jc) = isTreeParent this"
  "isTreeChildren (wire this owner related junction jt jc) = isTreeChildren this"
  "entityMetadata (wire this owner related junction jt jc) = Some owner"
  "inverseEntityMetadata (wire this owner related junction jt jc) = Some related"
  by (simp_all add: wire_def)

lemma inverseSideProperty_cases:
  "inverseSideProperty st this =
     (if truthy_inverseSide (priv_inverseSideProperty this)
      then (case priv_inverseSideProperty this of
              Some (Resolver f) \<Rightarrow>
                bind_error (deref st (inverseEntityMetadata this)) (\<lambda>em. Inr (f (createPropertiesMap em)))
            | Some (Literal s) \<Rightarrow> bind_error (deref st (inverseEntityMetadata this)) (\<lambda>em. Inr s)
            | None \<Rightarrow> Inr [])
      else if isTreeParent this
      then bind_error (deref st (entityMetadata this)) (\<lambda>em. property_of (treeChildrenRelation em))
      else if isTreeChildren this
      then bind_error (deref st (entityMetadata this)) (\<lambda>em. property_of (treeParentRelation em))
      else Inr [])"
  by (simp add: inverseSideProperty_def computeInverseSide_def Let_def
        split: option.splits PropertyTypeInFunction.splits)

lemma find_Some_in_set: "find P xs = Some x \<Longrightarrow> x \<in> set xs \<and> P x"
  by (induction xs) (auto split: if_splits)

text \<open>
  C2. For a relation built by the constructor and then wired, \<open>inverseSideProperty\<close>
  resolves in this order, the first match winning. (1) When the metadata holds an
  inverse-side specifier: a resolver is applied to the properties map of the related
  entity and its result is returned; a literal name is returned as it is, whatever the tree
  flags. (2) Otherwise, when the relation is a tree parent, the property name of the
  tree-children relation of the related entity, which for a tree relation is the owning
  entity itself, is returned. (3) Otherwise, when the relation is a tree-children relation,
  the property name of the tree-parent relation of that entity is returned. (4) Otherwise
  the empty string is returned. In (2) and (3) the entity has the sibling relation the
  claim speaks of.
\<close>

theorem inverseSideProperty_resolution:
  assumes "this = wire (constructor args) owner related junction jt jc"
  shows
   "(priv_inverseSideProperty this = Some (Resolver f) \<longrightarrow>
       inverseSideProperty st this = Inr (f (createPropertiesMap (st related)))) \<and>
    (priv_inverseSideProperty this = Some (Literal s) \<longrightarrow> inverseSideProperty st this = Inr s) \<and>
    (priv_inverseSideProperty this = None \<and> isTreeParent this \<and> related = owner \<and>
       treeChildrenRelation (st related) = Some children \<longrightarrow>
       inverseSideProperty st this = Inr (propertyName children)) \<and>
    (priv_inverseSideProperty this = None \<and> \<not> isTreeParent this \<and> isTreeChildren this \<and>
       related = owner \<and> treeParentRelation (st related) = Some parent \<longrightarrow>
       inverseSideProperty st this = Inr (propertyName parent)) \<and>
    (priv_inverseSideProperty this = None \<and> \<not> isTreeParent this \<and> \<not> isTreeChildren this \<longrightarrow>
       inverseSideProperty st this = Inr [])"
proof -
  have stored: "priv_inverseSideProperty this = priv_inverseSideProperty (constructor args)"
    and owner: "entityMetadata this = Some owner"
    and related: "inverseEntityMetadata this = Some related"
    using assms by (simp_all add: wire_fields)
  have truthy: "truthy_inverseSide (Some x)" if "priv_inverseSideProperty this = Some x" for x
    using that stored truthy_stored_specifier by simp
  show ?thesis
    using truthy [of "Resolver f"] truthy [of "Literal s"] owner related
    by (auto simp: inverseSideProperty_cases deref_def bind_error_def property_of_def)
qed

theorem inverseSideProperty_resolution_witness:
  "customer_orders = wire (constructor ((plain_args 2 ''orders'' ONE_TO_MANY 1)
                          \<lparr>args_propertyType := Some \<lparr>pt_name = Some ''Array''\<rparr>,
                           args_inverseSideProperty :=
                             Some (Resolver (\<lambda>order. case order ''customer'' of None \<Rightarrow> [] | Some n \<Rightarrow> n))\<rparr>))
       2 1 None None None \<and>
   priv_inverseSideProperty customer_orders
     = Some (Resolver (\<lambda>order. case order ''customer'' of None \<Rightarrow> [] | Some n \<Rightarrow> n)) \<and>
   inverseSideProperty example_store customer_orders = Inr ''customer'' \<and>
   priv_inverseSideProperty category_parent_literal = Some (Literal ''orders'') \<and>
   isTreeParent category_parent_literal \<and>
   inverseSideProperty example_store category_parent_literal = Inr ''orders'' \<and>
   priv_inverseSideProperty category_parent = None \<and> isTreeParent category_parent \<and>
   treeChildrenRelation (example_store 0) = Some category_children \<and>
   inverseSideProperty example_store category_parent = Inr ''children'' \<and>
   priv_inverseSideProperty category_children = None \<and> \<not> isTreeParent category_children \<and>
   isTreeChildren category_children \<and>
   treeParentRelation (example_store 0) = Some category_parent \<and>
   inverseSideProperty example_store category_children = Inr ''parent'' \<and>
   priv_inverseSideProperty post_author = None \<and> \<not> isTreeParent post_author \<and>
   \<not> isTreeChildren post_author \<and>
   inverseSideProperty example_store post_author = Inr []"
  using
    inverseSideProperty_resolution [OF customer_orders_def, where st = example_store
      and f = "\<lambda>order. case order ''customer'' of None \<Rightarrow> [] | Some n \<Rightarrow> n"]
    inverseSideProperty_resolution [OF category_parent_literal_def, where st = example_store
      and s = "''orders''"]
    inverseSideProperty_resolution [OF category_parent_def, where st = example_store
      and children = category_children]
    inverseSideProperty_resolution [OF category_children_def, where st = example_store
      and parent = category_parent]
    inverseSideProperty_resolution [OF post_author_def, where st = example_store]
  by (simp add: example_defs treeChildrenRelation_def treeParentRelation_def createPropertiesMap_def)

text \<open>
  C3. For a wired relation whose \<open>inverseSideProperty\<close> evaluates to \<open>p\<close>:
  \<open>inverseRelation\<close> throws exactly when the related entity has no relation with property
  name \<open>p\<close>; the error thrown is then the one whose message names the owning entity and
  \<open>p\<close>; and when there is such a relation, \<open>inverseRelation\<close> returns one.
\<close>

theorem inverseRelation_fails_iff:
  assumes "entityMetadata this = Some owner"
    and "inverseEntityMetadata this = Some related"
    and "inverseSideProperty st this = Inr p"
  shows
   "(inverseRelation st this
       = Inl (Error (''Inverse side was not found in the relation '' @ em_name (st owner) @ ''#'' @ p))
     \<longleftrightarrow> \<not> (\<exists>relation \<in> set (relations (st related)). propertyName relation = p)) \<and>
    ((\<exists>e. inverseRelation st this = Inl e)
     \<longleftrightarrow> \<not> (\<exists>relation \<in> set (relations (st related)). propertyName relation = p)) \<and>
    ((\<exists>relation \<in> set (relations (st related)). propertyName relation = p) \<longrightarrow>
       (\<exists>relation \<in> set (relations (st related)).
          propertyName relation = p \<and> inverseRelation st this = Inr relation))"
proof (cases "find (\<lambda>relation. propertyName relation = p) (relations (st related))")
  case None
  then have "\<not> (\<exists>relation \<in> set (relations (st related)). propertyName relation = p)"
    by (simp add: find_None_iff)
  moreover have "inverseRelation st this
       = Inl (Error (''Inverse side was not found in the relation '' @ em_name (st owner) @ ''#'' @ p))"
    using assms None
    by (simp add: inverseRelation_def deref_def bind_error_def findRelationWithPropertyName_def)
  ultimately show ?thesis by simp
next
  case (Some found)
  then have "found \<in> set (relations (st related)) \<and> propertyName found = p"
    by (rule find_Some_in_set)
  moreover have "inverseRelation st this = Inr found"
    using assms Some
    by (simp add: inverseRelation_def deref_def bind_error_def findRelationWithPropertyName_def)
  ultimately show ?thesis by auto
qed

theorem inverseRelation_fails_iff_witness:
  "entityMetadata post_author = Some 4 \<and> inverseEntityMetadata post_author = Some 2 \<and>
   inverseSideProperty example_store post_author = Inr [] \<and>
   inverseRelation example_store post_author
     = Inl (Error ''Inverse side was not found in the relation Post#'') \<and>
   entityMetadata customer_orders = Some 2 \<and> inverseEntityMetadata customer_orders = Some 1 \<and>
   inverseSideProperty example_store customer_orders = Inr ''customer'' \<and>
   inverseRelation example_store customer_orders = Inr order_customer"
proof -
  have a: "entityMetadata post_author = Some 4" "inverseEntityMetadata post_author = Some 2"
    "inverseSideProperty example_store post_author = Inr []"
    by (simp_all add: example_defs accessor_defs)
  have b: "entityMetadata customer_orders = Some 2" "inverseEntityMetadata customer_orders = Some 1"
    "inverseSideProperty example_store customer_orders = Inr ''customer''"
    by (simp_all add: example_defs accessor_defs)
  have c: "relations (example_store 2) = [customer_orders]"
    "relations (example_store (Suc 0)) = [order_customer]" "em_name (example_store 4) = ''Post''"
    by (simp_all add: example_store_def entity_def)
  have d: "propertyName customer_orders = ''orders''" "propertyName order_customer = ''customer''"
    by (simp_all add: example_defs)
  show ?thesis
    using inverseRelation_fails_iff [OF a] inverseRelation_fails_iff [OF b] a b
    by (simp add: c d)
qed

text \<open>
  C10. A declaration whose inverse-side specifier is the empty literal gives the same
  metadata as the declaration without a specifier: nothing is stored, and on the wired
  relation \<open>inverseSideProperty\<close> takes the tree branches (the sibling's property name
  when the owning entity has the sibling relation) or, with no tree flag, gives the empty
  string.
\<close>

theorem empty_literal_is_no_specifier:
  "constructor (args\<lparr>args_inverseSideProperty := Some (Literal [])\<rparr>)
     = constructor (args\<lparr>args_inverseSideProperty := None\<rparr>) \<and>
   priv_inverseSideProperty (constructor (args\<lparr>args_inverseSideProperty := Some (Literal [])\<rparr>)) = None \<and>
   (args_isTreeParent args = Some True \<and> treeChildrenRelation (st owner) = Some children \<longrightarrow>
      inverseSideProperty st
        (wire (constructor (args\<lparr>args_inverseSideProperty := Some (Literal [])\<rparr>))
           owner related junction jt jc)
      = Inr (propertyName children)) \<and>
   (args_isTreeParent args \<noteq> Some True \<and> args_isTreeChildren args = Some True \<and>
      treeParentRelation (st owner) = Some parent \<longrightarrow>
      inverseSideProperty st
        (wire (constructor (args\<lparr>args_inverseSideProperty := Some (Literal [])\<rparr>))
           owner related junction jt jc)
      = Inr (propertyName parent)) \<and>
   (args_isTreeParent args \<noteq> Some True \<and> args_isTreeChildren args \<noteq> Some True \<longrightarrow>
      inverseSideProperty st
        (wire (constructor (args\<lparr>args_inverseSideProperty := Some (Literal [])\<rparr>))
           owner related junction jt jc)
      = Inr [])"
  by (simp add: constructor_literal_empty inverseSideProperty_cases wire_fields
        priv_inverseSideProperty_constructor isTreeParent_constructor isTreeChildren_constructor
        deref_def bind_error_def property_of_def)

theorem empty_literal_is_no_specifier_witness:
  "args_isTreeParent (TreeParent_args None 0 ''parent'' None) = Some True \<and>
   treeChildrenRelation (example_store 0) = Some category_children \<and>
   priv_inverseSideProperty category_parent_empty_literal = None \<and>
   inverseSideProperty example_store category_parent_empty_literal = Inr ''children'' \<and>
   args_isTreeParent (plain_args 4 ''author'' ONE_TO_ONE 2) \<noteq> Some True \<and>
   args_isTreeChildren (plain_args 4 ''author'' ONE_TO_ONE 2) \<noteq> Some True \<and>
   inverseSideProperty example_store
     (wire (constructor ((plain_args 4 ''author'' ONE_TO_ONE 2)\<lparr>args_inverseSideProperty := Some (Literal [])\<rparr>))
        4 2 None None None) = Inr []"
proof -
  have tree: "treeChildrenRelation (example_store 0) = Some category_children"
    by (simp add: example_defs treeChildrenRelation_def)
  have name: "propertyName category_children = ''children''"
    by (simp add: example_defs)
  have flags: "args_isTreeParent (TreeParent_args None 0 ''parent'' None) = Some True"
    "args_isTreeParent (plain_args 4 ''author'' ONE_TO_ONE 2) \<noteq> Some True"
    "args_isTreeChildren (plain_args 4 ''author'' ONE_TO_ONE 2) \<noteq> Some True"
    by (simp_all add: TreeParent_args_def plain_args_def)
  note tree_case =
    empty_literal_is_no_specifier [where args = "TreeParent_args None 0 ''parent'' None"
      and st = example_store and owner = 0 and children = category_children
      and related = 0 and junction = None and jt = None and jc = None]
  note plain_case =
    empty_literal_is_no_specifier [where args = "plain_args 4 ''author'' ONE_TO_ONE 2"
      and st = example_store and owner = 4
      and related = 2 and junction = None and jt = None and jc = None]
  have stored: "priv_inverseSideProperty category_parent_empty_literal = None"
    using tree_case [THEN conjunct2, THEN conjunct1]
    by (simp add: category_parent_empty_literal_def wire_fields)
  have falls_through: "inverseSideProperty example_store category_parent_empty_literal = Inr ''children''"
    using tree_case [THEN conjunct2, THEN conjunct2, THEN conjunct1] tree name flags
    by (simp add: category_parent_empty_literal_def)
  have empty: "inverseSideProperty example_store
     (wire (constructor ((plain_args 4 ''author'' ONE_TO_ONE 2)\<lparr>args_inverseSideProperty := Some (Literal [])\<rparr>))
        4 2 None None None) = Inr []"
    using plain_case [THEN conjunct2, THEN conjunct2, THEN conjunct2, THEN conjunct2] flags
    by simp
  show ?thesis
    using stored falls_through empty tree flags by simp
qed

section \<open>Nullability\<close>

text \<open>
  C5. The claim: the nullable attribute is true by default and equals the declared
  \<^verbatim>\<open>nullable\<close> option whenever it is given, so \<^verbatim>\<open>nullable = false\<close> yields
  \<^verbatim>\<open>isNullable = false\<close>. The constructor copies the option under
  \<^verbatim>\<open>if (args.options.nullable)\<close>, which does not hold for \<^verbatim>\<open>false\<close>: at the declaration
  below, with \<^verbatim>\<open>nullable = false\<close>, the constructed metadata has \<open>isNullable = True\<close>
  (by \<open>isNullable_constructor\<close> it is so for every declaration).
\<close>

theorem nullable_false_is_not_copied:
  "opt_nullable (args_options
      ((plain_args 1 ''customer'' MANY_TO_ONE 2)\<lparr>args_options := empty_options\<lparr>opt_nullable := Some False\<rparr>\<rparr>))
     = Some False \<and>
   isNullable (constructor
      ((plain_args 1 ''customer'' MANY_TO_ONE 2)\<lparr>args_options := empty_options\<lparr>opt_nullable := Some False\<rparr>\<rparr>))
     = True"
  by (simp add: example_defs)

section \<open>Which accessors can throw\<close>

text \<open>
  On a wired relation \<open>name\<close> and \<open>referencedColumnName\<close> always return; \<open>isLazy\<close> and
  \<open>isOwning\<close> have no failing path at all. \<open>inverseSideProperty\<close> throws exactly in a tree
  branch whose sibling relation is missing, and \<open>hasInverseSide\<close> throws whenever
  \<open>inverseSideProperty\<close> does.
\<close>

lemma name_never_fails:
  "wired this \<Longrightarrow> \<exists>n. name st this = Inr n"
  by (auto simp: wired_def name_def deref_def bind_error_def Let_def split: option.splits)

lemma referencedColumnName_never_fails:
  "wired this \<Longrightarrow> \<exists>n. referencedColumnName st this = Inr n"
  by (auto simp: wired_def referencedColumnName_def deref_def bind_error_def Let_def split: option.splits)

lemma inverseSideProperty_fails_iff:
  assumes "entityMetadata this = Some owner" and "inverseEntityMetadata this = Some related"
  shows "(\<exists>e. inverseSideProperty st this = Inl e) \<longleftrightarrow>
           \<not> truthy_inverseSide (priv_inverseSideProperty this) \<and>
           (if isTreeParent this then treeChildrenRelation (st owner) = None
            else isTreeChildren this \<and> treeParentRelation (st owner) = None)"
  using assms
  by (auto simp: inverseSideProperty_cases deref_def bind_error_def property_of_def
        split: option.splits PropertyTypeInFunction.splits)

lemma hasInverseSide_fails_iff:
  assumes "inverseEntityMetadata this = Some related"
  shows "(\<exists>e. hasInverseSide st this = Inl e) \<longleftrightarrow> (\<exists>e. inverseSideProperty st this = Inl e)"
  using assms
  by (cases "inverseSideProperty st this") (simp_all add: hasInverseSide_def bind_error_def)

text \<open>
  C6. The claim: \<open>inverseRelation\<close> is the only accessor that can fail; every other one
  returns a default or empty value in every unresolved-reference situation, including a
  tree relation whose entity has no tree-children or tree-parent sibling. The tree branches
  read \<^verbatim>\<open>this.entityMetadata.treeChildrenRelation.propertyName\<close> without a guard: for the
  relation that \<^verbatim>\<open>TreeParent\<close> declares on the entity Folder, which has no tree-children
  relation, \<open>inverseSideProperty\<close> and \<open>hasInverseSide\<close> throw a \<^verbatim>\<open>TypeError\<close>.
\<close>

theorem tree_parent_without_children_throws:
  "folder_parent = wire (constructor (TreeParent_args None 3 ''parent'' None)) 3 3 None None None \<and>
   wired folder_parent \<and>
   relations (example_store 3) = [folder_parent] \<and>
   treeChildrenRelation (example_store 3) = None \<and>
   inverseSideProperty example_store folder_parent = Inl TypeError \<and>
   hasInverseSide example_store folder_parent = Inl TypeError"
  by (simp add: example_defs accessor_defs wired_def)

end
